theory Spec2Isabelle
  imports Complex_Main "HOL-Library.FSet"
begin

section \<open>Data model\<close>

text \<open>
  The program \<open>read_pgn.py\<close> reads chess games, replays a prefix of each game and
  turns the position reached into a row of named numeric features. The chess rules
  library it calls is not part of the program: board access (the piece on a square, the
  side to move, the king's square) is modelled on the board's contents, and everything
  the library derives from the rules of chess (attackers of a square, the number of
  legal moves, check, checkmate, stalemate, the effect of a move) is a parameter, the
  record \<open>rules\<close> below.
\<close>

datatype color = White | Black

datatype piece_type = Pawn | Knight | Bishop | Rook | Queen | King

datatype piece = Piece (piece_type: piece_type) (color: color)

text \<open>Squares are Python integers: 0 is a1, 7 is h1, 56 is a8 and 63 is h8.\<close>

type_synonym square = int

text \<open>
  A board gives the piece on every square and the side to move. Whatever else the
  library keeps in a board (castling rights, the en-passant square, the move stack)
  lives in the record's extension, which the functions below pass on untouched.
\<close>

record board =
  piece_at :: "square \<Rightarrow> piece option"
  turn :: color

text \<open>
  A feature value is a Python number: an \<open>int\<close>, or the \<open>float\<close> literal 0.5 of
  the outcome label (kept as the rational it denotes).
\<close>

datatype pyval = PyInt int | PyFloat rat

type_synonym features = "string \<rightharpoonup> pyval"

text \<open>The operations of the rules library that depend on the rules of chess.\<close>

record ('b, 'm) rules =
  attackers :: "'b \<Rightarrow> color \<Rightarrow> square \<Rightarrow> square fset"
  legal_moves_count :: "'b \<Rightarrow> nat"
  is_check :: "'b \<Rightarrow> bool"
  is_checkmate :: "'b \<Rightarrow> bool"
  is_stalemate :: "'b \<Rightarrow> bool"
  push :: "'b \<Rightarrow> 'm \<Rightarrow> 'b"

section \<open>Board access\<close>

definition square_file :: "square \<Rightarrow> int" where
  "square_file sq = sq mod 8"

definition square_rank :: "square \<Rightarrow> int" where
  "square_rank sq = sq div 8"

definition square :: "int \<Rightarrow> int \<Rightarrow> square" where
  "square file_index rank_index = rank_index * 8 + file_index"

text \<open>\<open>board.piece_map().values()\<close>: the pieces on the 64 squares, from h8 down to a1.\<close>

definition piece_map_values :: "'a board_scheme \<Rightarrow> piece list" where
  "piece_map_values b = List.map_filter (piece_at b) (rev [0..63])"

text \<open>\<open>board.pieces(piece_type, color)\<close>: the squares holding such a piece.\<close>

definition pieces :: "'a board_scheme \<Rightarrow> piece_type \<Rightarrow> color \<Rightarrow> square list" where
  "pieces b pt c = filter (\<lambda>sq. piece_at b sq = Some (Piece pt c)) [0..63]"

text \<open>
  \<open>board.king(color)\<close>: the square of the king of that colour, the highest one when
  there are several, \<open>None\<close> when there is none. In chess variants where a piece can be
  promoted to a king the library leaves promoted kings out; the boards here are those of
  standard chess, which has none.
\<close>

definition king :: "'a board_scheme \<Rightarrow> color \<Rightarrow> square option" where
  "king b c = (case rev (pieces b King c) of [] \<Rightarrow> None | sq # _ \<Rightarrow> Some sq)"

fun piece_name :: "piece_type \<Rightarrow> string" where
  "piece_name Pawn = ''pawn''"
| "piece_name Knight = ''knight''"
| "piece_name Bishop = ''bishop''"
| "piece_name Rook = ''rook''"
| "piece_name Queen = ''queen''"
| "piece_name King = ''king''"

text \<open>Python's truth value of an optional integer: \<open>None\<close> and 0 are false.\<close>

fun truthy :: "int option \<Rightarrow> bool" where
  "truthy None = False"
| "truthy (Some n) = (n \<noteq> 0)"

section \<open>The feature extractor\<close>

fun piece_values :: "piece_type \<Rightarrow> int" where
  "piece_values Pawn = 1"
| "piece_values Knight = 3"
| "piece_values Bishop = 3"
| "piece_values Rook = 5"
| "piece_values Queen = 9"
| "piece_values King = 0"

definition material :: "'a board_scheme \<Rightarrow> color \<Rightarrow> int" where
  "material b c =
     sum_list (map (\<lambda>p. piece_values (piece_type p))
                   (filter (\<lambda>p. color p = c) (piece_map_values b)))"

definition get_material_features :: "'a board_scheme \<Rightarrow> features" where
  "get_material_features b =
     (let white_material = material b White;
          black_material = material b Black
      in [''white_material'' \<mapsto> PyInt white_material,
          ''black_material'' \<mapsto> PyInt black_material,
          ''material_diff'' \<mapsto> PyInt (white_material - black_material)])"

definition get_piece_count_features :: "'a board_scheme \<Rightarrow> features" where
  "get_piece_count_features b =
     fold (\<lambda>pt features.
             let white_count = int (length (pieces b pt White));
                 black_count = int (length (pieces b pt Black));
                 name = piece_name pt
             in features(''white_'' @ name @ ''s'' \<mapsto> PyInt white_count,
                         ''black_'' @ name @ ''s'' \<mapsto> PyInt black_count))
          [Pawn, Knight, Bishop, Rook, Queen] Map.empty"

text \<open>
  The inner loop of the pawn-shield count: walk the ranks of one file in the given
  order and stop (\<open>break\<close>) at the first pawn of colour \<open>c\<close>, which counts 1.
\<close>

fun scan_file :: "'a board_scheme \<Rightarrow> color \<Rightarrow> int \<Rightarrow> int list \<Rightarrow> int" where
  "scan_file b c check_file [] = 0"
| "scan_file b c check_file (rank # ranks) =
     (case piece_at b (square check_file rank) of
        None \<Rightarrow> scan_file b c check_file ranks
      | Some p \<Rightarrow>
          if piece_type p = Pawn \<and> color p = c then 1
          else scan_file b c check_file ranks)"

text \<open>The outer loop: the king's file and its neighbours, those that are on the board.\<close>

definition pawn_shield :: "'a board_scheme \<Rightarrow> color \<Rightarrow> int \<Rightarrow> int list \<Rightarrow> int" where
  "pawn_shield b c king_file ranks =
     fold (\<lambda>file_offset shield.
             let check_file = king_file + file_offset
             in if 0 \<le> check_file \<and> check_file \<le> 7
                then shield + scan_file b c check_file ranks
                else shield)
          [- 1, 0, 1] 0"

text \<open>\<open>range(king_rank + 1, 8)\<close> for White, \<open>range(king_rank - 1, -1, -1)\<close> for Black.\<close>

fun shield_ranks :: "color \<Rightarrow> int \<Rightarrow> int list" where
  "shield_ranks White king_rank = [king_rank + 1..7]"
| "shield_ranks Black king_rank = rev [0..king_rank - 1]"

definition get_king_safety_features ::
  "('a board_scheme, 'm) rules \<Rightarrow> 'a board_scheme \<Rightarrow> features" where
  "get_king_safety_features R b =
     (let white_king_square = king b White;
          black_king_square = king b Black;
          features = Map.empty;
          features =
            (if truthy white_king_square then
               let sq = the white_king_square;
                   white_king_attacks = int (fcard (attackers R b Black sq));
                   king_file = square_file sq;
                   king_rank = square_rank sq;
                   white_pawn_shield = pawn_shield b White king_file (shield_ranks White king_rank)
               in features(''white_king_attackers'' \<mapsto> PyInt white_king_attacks,
                           ''white_pawn_shield'' \<mapsto> PyInt white_pawn_shield)
             else features(''white_king_attackers'' \<mapsto> PyInt 0,
                           ''white_pawn_shield'' \<mapsto> PyInt 0));
          features =
            (if truthy black_king_square then
               let sq = the black_king_square;
                   black_king_attacks = int (fcard (attackers R b White sq));
                   king_file = square_file sq;
                   king_rank = square_rank sq;
                   black_pawn_shield = pawn_shield b Black king_file (shield_ranks Black king_rank)
               in features(''black_king_attackers'' \<mapsto> PyInt black_king_attacks,
                           ''black_pawn_shield'' \<mapsto> PyInt black_pawn_shield)
             else features(''black_king_attackers'' \<mapsto> PyInt 0,
                           ''black_pawn_shield'' \<mapsto> PyInt 0))
      in features)"

definition get_mobility_features ::
  "('a board_scheme, 'm) rules \<Rightarrow> 'a board_scheme \<Rightarrow> features" where
  "get_mobility_features R b =
     [''to_move'' \<mapsto> PyInt (if turn b = White then 1 else 0),
      ''legal_moves'' \<mapsto> PyInt (int (legal_moves_count R b))]"

definition get_game_state_features ::
  "('a board_scheme, 'm) rules \<Rightarrow> 'a board_scheme \<Rightarrow> features" where
  "get_game_state_features R b =
     [''is_check'' \<mapsto> PyInt (of_bool (is_check R b)),
      ''is_checkmate'' \<mapsto> PyInt (of_bool (is_checkmate R b)),
      ''is_stalemate'' \<mapsto> PyInt (of_bool (is_stalemate R b))]"

definition extract_board_features ::
  "('a board_scheme, 'm) rules \<Rightarrow> 'a board_scheme \<Rightarrow> features" where
  "extract_board_features R b =
     Map.empty ++ get_material_features b
               ++ get_piece_count_features b
               ++ get_king_safety_features R b
               ++ get_mobility_features R b
               ++ get_game_state_features R b"

section \<open>The game scanner\<close>

text \<open>
  A parsed game: its headers, the board \<open>game.board()\<close> it starts from and its main
  line of moves.
\<close>

record ('b, 'm) game =
  headers :: "string \<rightharpoonup> string"
  game_board :: 'b
  mainline_moves :: "'m list"

text \<open>\<open>game.headers.get(key, default)\<close>\<close>

definition headers_get :: "(string \<rightharpoonup> string) \<Rightarrow> string \<Rightarrow> string \<Rightarrow> string" where
  "headers_get h key fallback = (case h key of None \<Rightarrow> fallback | Some v \<Rightarrow> v)"

text \<open>
  The replay loop: \<open>for move in game.mainline_moves()\<close>, leaving the loop once
  \<open>move_count >= target_move * 2\<close>. It returns the board and the move count.
\<close>

fun replay :: "('b, 'm) rules \<Rightarrow> int \<Rightarrow> 'b \<Rightarrow> int \<Rightarrow> 'm list \<Rightarrow> 'b \<times> int" where
  "replay R target_move b move_count [] = (b, move_count)"
| "replay R target_move b move_count (move # moves) =
     (if move_count \<ge> target_move * 2 then (b, move_count)
      else replay R target_move (push R b move) (move_count + 1) moves)"

text \<open>The outcome label of a result header; \<open>None\<close> where the loop says \<open>continue\<close>.\<close>

definition result_target :: "string \<Rightarrow> pyval option" where
  "result_target result =
     (if result = ''*'' then None
      else if result = ''1-0'' then Some (PyInt 1)
      else if result = ''0-1'' then Some (PyInt 0)
      else if result = ''1/2-1/2'' then Some (PyFloat (1 / 2))
      else None)"

text \<open>
  One pass through the body of the scanning loop, for one game: \<open>None\<close> when the body
  ends in \<open>continue\<close>, the row otherwise. Python's \<open>int\<close> on a string is the parameter
  \<open>py_int\<close>, which is \<open>None\<close> where \<open>int\<close> raises \<open>ValueError\<close>.
\<close>

definition process_game ::
  "('a board_scheme, 'm) rules \<Rightarrow> (string \<Rightarrow> int option) \<Rightarrow> int \<Rightarrow>
   ('a board_scheme, 'm) game \<Rightarrow> features option" where
  "process_game R py_int target_move g =
     (let result = headers_get (headers g) ''Result'' ''*'' in
      case result_target result of
        None \<Rightarrow> None
      | Some target \<Rightarrow>
          let white_elo = headers_get (headers g) ''WhiteElo'' [];
              black_elo = headers_get (headers g) ''BlackElo'' []
          in if white_elo = [] \<or> black_elo = [] \<or> white_elo = ''?'' \<or> black_elo = ''?''
             then None
             else
               (case py_int white_elo of
                  None \<Rightarrow> None
                | Some white_elo \<Rightarrow>
                    (case py_int black_elo of
                       None \<Rightarrow> None
                     | Some black_elo \<Rightarrow>
                         let (board, move_count) =
                               replay R target_move (game_board g) 0 (mainline_moves g)
                         in if move_count < target_move * 2 then None
                            else Some ((extract_board_features R board)
                                         (''white_elo'' \<mapsto> PyInt white_elo,
                                          ''black_elo'' \<mapsto> PyInt black_elo,
                                          ''elo_diff'' \<mapsto> PyInt (white_elo - black_elo),
                                          ''result'' \<mapsto> target)))))"

text \<open>
  The scanning loop over the stream of games. The state is the unread stream, the rows
  so far and their count; the result is the rows and what is left unread.
\<close>

fun scan_games ::
  "('a board_scheme, 'm) rules \<Rightarrow> (string \<Rightarrow> int option) \<Rightarrow> int \<Rightarrow> int option \<Rightarrow>
   ('a board_scheme, 'm) game list \<Rightarrow> features list \<Rightarrow> int \<Rightarrow>
   features list \<times> ('a board_scheme, 'm) game list" where
  "scan_games R py_int target_move max_games [] games_data games_processed =
     (games_data, [])"
| "scan_games R py_int target_move max_games (g # text_stream) games_data games_processed =
     (case process_game R py_int target_move g of
        None \<Rightarrow> scan_games R py_int target_move max_games text_stream games_data games_processed
      | Some features \<Rightarrow>
          let games_data = games_data @ [features];
              games_processed = games_processed + 1
          in if truthy max_games \<and> games_processed \<ge> the max_games
             then (games_data, text_stream)
             else scan_games R py_int target_move max_games text_stream
                    games_data games_processed)"

definition process_pgn_file ::
  "('a board_scheme, 'm) rules \<Rightarrow> (string \<Rightarrow> int option) \<Rightarrow>
   ('a board_scheme, 'm) game list \<Rightarrow> int \<Rightarrow> int option \<Rightarrow> features list" where
  "process_pgn_file R py_int text_stream target_move max_games =
     fst (scan_games R py_int target_move max_games text_stream [] 0)"

section \<open>Concrete positions and a stub rules engine\<close>

definition back_rank :: "piece_type list" where
  "back_rank = [Rook, Knight, Bishop, Queen, King, Bishop, Knight, Rook]"

text \<open>The standard starting position, White to move.\<close>

definition starting_board :: board where
  "starting_board =
     \<lparr>piece_at = (\<lambda>sq.
        if 0 \<le> sq \<and> sq \<le> 7 then Some (Piece (back_rank ! nat sq) White)
        else if 8 \<le> sq \<and> sq \<le> 15 then Some (Piece Pawn White)
        else if 48 \<le> sq \<and> sq \<le> 55 then Some (Piece Pawn Black)
        else if 56 \<le> sq \<and> sq \<le> 63 then Some (Piece (back_rank ! nat (sq - 56)) Black)
        else None),
      turn = White\<rparr>"

text \<open>A position with the white king on a1 behind its pawn on a2, the black king on h8.\<close>

definition corner_board :: board where
  "corner_board =
     \<lparr>piece_at = [0 \<mapsto> Piece King White, 8 \<mapsto> Piece Pawn White, 63 \<mapsto> Piece King Black],
      turn = White\<rparr>"

text \<open>A position with no king of either colour: a white pawn on e2, a black pawn on e7.\<close>

definition kingless_board :: board where
  "kingless_board =
     \<lparr>piece_at = [12 \<mapsto> Piece Pawn White, 52 \<mapsto> Piece Pawn Black],
      turn = White\<rparr>"

text \<open>Two kings on their starting squares and a black queen on d8.\<close>

definition queen_down_board :: board where
  "queen_down_board =
     \<lparr>piece_at = [4 \<mapsto> Piece King White, 59 \<mapsto> Piece Queen Black, 60 \<mapsto> Piece King Black],
      turn = White\<rparr>"

text \<open>
  A stub of the rules engine, to run the scanner on concrete games: a move is a pair of
  squares, and pushing it carries the piece over and passes the turn.
\<close>

definition stub_rules :: "(board, square \<times> square) rules" where
  "stub_rules =
     \<lparr>attackers = (\<lambda>b c sq. {||}),
      legal_moves_count = (\<lambda>b. 0),
      is_check = (\<lambda>b. False),
      is_checkmate = (\<lambda>b. False),
      is_stalemate = (\<lambda>b. False),
      push = (\<lambda>b (from_sq, to_sq).
                b\<lparr>piece_at := (piece_at b)(from_sq := None, to_sq := piece_at b from_sq),
                  turn := (if turn b = White then Black else White)\<rparr>)\<rparr>"

text \<open>A decimal reader standing in for Python's \<open>int\<close> on strings of ASCII digits.\<close>

definition digits_int :: "string \<Rightarrow> int option" where
  "digits_int s =
     (if s \<noteq> [] \<and> list_all (\<lambda>c. c \<in> set ''0123456789'') s
      then Some (foldl (\<lambda>n c. 10 * n + (of_char c - 48)) 0 s)
      else None)"

definition sample_game :: "string \<Rightarrow> string \<Rightarrow> string \<Rightarrow> (board, square \<times> square) game" where
  "sample_game result white_elo black_elo =
     \<lparr>headers = [''Result'' \<mapsto> result, ''WhiteElo'' \<mapsto> white_elo, ''BlackElo'' \<mapsto> black_elo],
      game_board = starting_board,
      mainline_moves = [(12, 28), (52, 36)]\<rparr>"

definition sample_stream :: "(board, square \<times> square) game list" where
  "sample_stream =
     [sample_game ''1-0'' ''1500'' ''1400'',
      sample_game ''1/2-1/2'' ''1600'' ''1650'',
      sample_game ''0-1'' ''?'' ''1400'']"

text \<open>The first sample game cut down to a single half-move.\<close>

definition short_game :: "(board, square \<times> square) game" where
  "short_game = (sample_game ''1-0'' ''1500'' ''1400'')\<lparr>mainline_moves := [(12, 28)]\<rparr>"

section \<open>Notions used to state the properties\<close>

text \<open>The files the pawn-shield count looks at: the king's file and its neighbours on the board.\<close>

definition shield_files :: "int \<Rightarrow> int list" where
  "shield_files king_file =
     filter (\<lambda>check_file. 0 \<le> check_file \<and> check_file \<le> 7)
            [king_file - 1, king_file, king_file + 1]"

text \<open>The keys of the extractor's mapping, and those of a row of the dataset.\<close>

definition feature_keys :: "string set" where
  "feature_keys =
     {''white_material'', ''black_material'', ''material_diff'',
      ''white_pawns'', ''black_pawns'', ''white_knights'', ''black_knights'',
      ''white_bishops'', ''black_bishops'', ''white_rooks'', ''black_rooks'',
      ''white_queens'', ''black_queens'',
      ''white_king_attackers'', ''white_pawn_shield'',
      ''black_king_attackers'', ''black_pawn_shield'',
      ''to_move'', ''legal_moves'',
      ''is_check'', ''is_checkmate'', ''is_stalemate''}"

definition row_keys :: "string set" where
  "row_keys = feature_keys \<union> {''white_elo'', ''black_elo'', ''elo_diff'', ''result''}"

text \<open>The rows of the qualifying games of a stream, in the order of the stream.\<close>

definition qualifying_rows ::
  "('a board_scheme, 'm) rules \<Rightarrow> (string \<Rightarrow> int option) \<Rightarrow> int \<Rightarrow>
   ('a board_scheme, 'm) game list \<Rightarrow> features list" where
  "qualifying_rows R py_int target_move stream =
     List.map_filter (process_game R py_int target_move) stream"

text \<open>The position a game is in after its first \<open>n\<close> half-moves.\<close>

definition position_after :: "('b, 'm) rules \<Rightarrow> ('b, 'm) game \<Rightarrow> int \<Rightarrow> 'b" where
  "position_after R g n = foldl (push R) (game_board g) (take (nat n) (mainline_moves g))"

section \<open>Auxiliary facts\<close>


lemma scan_file_bounds: "0 \<le> scan_file b c f ranks \<and> scan_file b c f ranks \<le> 1"
  by (induction ranks) (auto split: option.splits)

lemma scan_file_first:
  "scan_file b c f ranks =
     of_bool (list_ex (\<lambda>r. piece_at b (square f r) = Some (Piece Pawn c)) ranks)"
proof (induction ranks)
  case Nil
  show ?case by simp
next
  case (Cons r rs)
  show ?case
  proof (cases "piece_at b (square f r)")
    case None
    with Cons show ?thesis by simp
  next
    case (Some p)
    with Cons show ?thesis by (cases p) auto
  qed
qed

lemma pawn_shield_sum:
  "pawn_shield b c king_file ranks =
     sum_list (map (\<lambda>check_file. scan_file b c check_file ranks) (shield_files king_file))"
  by (simp add: pawn_shield_def shield_files_def Let_def)

lemma pawn_shield_bounds: "0 \<le> pawn_shield b c kf ranks \<and> pawn_shield b c kf ranks \<le> 3"
proof -
  note s = scan_file_bounds [of b c _ ranks]
  show ?thesis
    using s [of "kf - 1"] s [of kf] s [of "kf + 1"]
    by (auto simp: pawn_shield_def Let_def)
qed

lemma king_safety_white_shield:
  "get_king_safety_features R b ''white_pawn_shield'' =
     Some (PyInt (if truthy (king b White)
                  then pawn_shield b White (square_file (the (king b White)))
                         (shield_ranks White (square_rank (the (king b White))))
                  else 0))"
  by (simp add: get_king_safety_features_def Let_def)

lemma king_safety_black_shield:
  "get_king_safety_features R b ''black_pawn_shield'' =
     Some (PyInt (if truthy (king b Black)
                  then pawn_shield b Black (square_file (the (king b Black)))
                         (shield_ranks Black (square_rank (the (king b Black))))
                  else 0))"
  by (simp add: get_king_safety_features_def Let_def)

lemma king_safety_white_attackers:
  "get_king_safety_features R b ''white_king_attackers'' =
     Some (PyInt (if truthy (king b White)
                  then int (fcard (attackers R b Black (the (king b White))))
                  else 0))"
  by (simp add: get_king_safety_features_def Let_def)

lemma king_safety_black_attackers:
  "get_king_safety_features R b ''black_king_attackers'' =
     Some (PyInt (if truthy (king b Black)
                  then int (fcard (attackers R b White (the (king b Black))))
                  else 0))"
  by (simp add: get_king_safety_features_def Let_def)

lemma dom_material:
  "dom (get_material_features b) = {''white_material'', ''black_material'', ''material_diff''}"
  by (auto simp: get_material_features_def Let_def)

lemma dom_piece_count:
  "dom (get_piece_count_features b) =
     {''white_pawns'', ''black_pawns'', ''white_knights'', ''black_knights'',
      ''white_bishops'', ''black_bishops'', ''white_rooks'', ''black_rooks'',
      ''white_queens'', ''black_queens''}"
  by (auto simp: get_piece_count_features_def Let_def)

lemma dom_king_safety:
  "dom (get_king_safety_features R b) =
     {''white_king_attackers'', ''white_pawn_shield'',
      ''black_king_attackers'', ''black_pawn_shield''}"
  by (auto simp: get_king_safety_features_def Let_def)

lemma dom_mobility:
  "dom (get_mobility_features R b) = {''to_move'', ''legal_moves''}"
  by (auto simp: get_mobility_features_def)

lemma dom_game_state:
  "dom (get_game_state_features R b) = {''is_check'', ''is_checkmate'', ''is_stalemate''}"
  by (auto simp: get_game_state_features_def)

lemma dom_extract: "dom (extract_board_features R b) = feature_keys"
  unfolding extract_board_features_def dom_map_add dom_material dom_piece_count
    dom_king_safety dom_mobility dom_game_state feature_keys_def
  by auto

lemma card_feature_keys: "card feature_keys = 22"
  by (simp add: feature_keys_def)


lemma values_by_counts:
  "sum_list (map (\<lambda>p. piece_values (piece_type p))
               (filter (\<lambda>p. color p = c) (List.map_filter (piece_at b) xs))) =
     int (length (filter (\<lambda>sq. piece_at b sq = Some (Piece Pawn c)) xs))
     + 3 * int (length (filter (\<lambda>sq. piece_at b sq = Some (Piece Knight c)) xs))
     + 3 * int (length (filter (\<lambda>sq. piece_at b sq = Some (Piece Bishop c)) xs))
     + 5 * int (length (filter (\<lambda>sq. piece_at b sq = Some (Piece Rook c)) xs))
     + 9 * int (length (filter (\<lambda>sq. piece_at b sq = Some (Piece Queen c)) xs))"
proof (induction xs)
  case Nil
  show ?case by simp
next
  case (Cons x xs)
  show ?case
  proof (cases "piece_at b x")
    case None
    with Cons show ?thesis by simp
  next
    case (Some p)
    obtain pt pc where p: "p = Piece pt pc" by (cases p)
    show ?thesis
      using Cons Some p by (cases pt) auto
  qed
qed

lemma length_filter_rev: "length (filter P (rev xs)) = length (filter P xs)"
  by (simp add: rev_filter [symmetric])

lemma material_by_counts:
  "material b c =
     int (length (pieces b Pawn c)) + 3 * int (length (pieces b Knight c))
     + 3 * int (length (pieces b Bishop c)) + 5 * int (length (pieces b Rook c))
     + 9 * int (length (pieces b Queen c))"
  unfolding material_def piece_map_values_def pieces_def values_by_counts length_filter_rev
  by (rule refl)

lemma extract_material:
  "extract_board_features R b ''white_material'' = Some (PyInt (material b White))"
  "extract_board_features R b ''black_material'' = Some (PyInt (material b Black))"
  "extract_board_features R b ''material_diff'' =
     Some (PyInt (material b White - material b Black))"
  by (simp_all add: extract_board_features_def map_add_def get_material_features_def
      get_piece_count_features_def get_king_safety_features_def get_mobility_features_def
      get_game_state_features_def Let_def)

lemma replay_eq:
  "0 \<le> n \<Longrightarrow> n \<le> t * 2 \<Longrightarrow>
   replay R t b n ms =
     (foldl (push R) b (take (nat (t * 2 - n)) ms), min (n + int (length ms)) (t * 2))"
proof (induction ms arbitrary: b n)
  case Nil
  then show ?case by simp
next
  case (Cons m ms)
  show ?case
  proof (cases "n \<ge> t * 2")
    case True
    with Cons.prems show ?thesis by simp
  next
    case False
    then have "replay R t b n (m # ms) = replay R t (push R b m) (n + 1) ms" by simp
    also have "\<dots> = (foldl (push R) (push R b m) (take (nat (t * 2 - (n + 1))) ms),
                      min (n + 1 + int (length ms)) (t * 2))"
      using Cons.IH [of "n + 1" "push R b m"] Cons.prems False by simp
    also have "nat (t * 2 - (n + 1)) = nat (t * 2 - n) - 1"
      by arith
    finally show ?thesis
      using False by (simp add: take_Cons' add.commute add.left_commute)
  qed
qed

lemma process_game_Some:
  "process_game R py_int t g = Some row \<longleftrightarrow>
     (\<exists>target w bl.
        result_target (headers_get (headers g) ''Result'' ''*'') = Some target \<and>
        headers_get (headers g) ''WhiteElo'' [] \<noteq> [] \<and>
        headers_get (headers g) ''BlackElo'' [] \<noteq> [] \<and>
        headers_get (headers g) ''WhiteElo'' [] \<noteq> ''?'' \<and>
        headers_get (headers g) ''BlackElo'' [] \<noteq> ''?'' \<and>
        py_int (headers_get (headers g) ''WhiteElo'' []) = Some w \<and>
        py_int (headers_get (headers g) ''BlackElo'' []) = Some bl \<and>
        \<not> snd (replay R t (game_board g) 0 (mainline_moves g)) < t * 2 \<and>
        row = (extract_board_features R (fst (replay R t (game_board g) 0 (mainline_moves g))))
                (''white_elo'' \<mapsto> PyInt w, ''black_elo'' \<mapsto> PyInt bl,
                 ''elo_diff'' \<mapsto> PyInt (w - bl), ''result'' \<mapsto> target))"
  by (auto simp: process_game_def Let_def split: option.splits prod.splits)

lemma scan_games_uncapped:
  "\<not> truthy mg \<Longrightarrow>
   scan_games R p t mg stream data k = (data @ List.map_filter (process_game R p t) stream, [])"
  by (induction stream arbitrary: data k)
     (auto split: option.splits)

lemma scan_games_capped:
  "n \<noteq> 0 \<Longrightarrow>
   fst (scan_games R p t (Some n) stream data k) =
     data @ take (nat (max 1 (n - k))) (List.map_filter (process_game R p t) stream)"
proof (induction stream arbitrary: data k)
  case Nil
  show ?case by simp
next
  case (Cons g gs)
  show ?case
  proof (cases "process_game R p t g")
    case None
    with Cons show ?thesis by simp
  next
    case (Some row)
    show ?thesis
    proof (cases "k + 1 \<ge> n")
      case True
      then have "nat (max 1 (n - k)) = 1" by simp
      with True Some Cons.prems show ?thesis by simp
    next
      case False
      then have "nat (max 1 (n - k)) = Suc (nat (max 1 (n - (k + 1))))" by simp
      with False Some Cons.prems Cons.IH [of "data @ [row]" "k + 1"] show ?thesis
        by simp
    qed
  qed
qed

lemma process_pgn_file_eq:
  "process_pgn_file R p stream t mg =
     (if truthy mg
      then take (nat (max 1 (the mg))) (List.map_filter (process_game R p t) stream)
      else List.map_filter (process_game R p t) stream)"
proof (cases "truthy mg")
  case True
  then obtain n where "mg = Some n" "n \<noteq> 0" by (cases mg) auto
  then show ?thesis
    using scan_games_capped [of n R p t stream "[]" 0] by (simp add: process_pgn_file_def)
next
  case False
  then show ?thesis by (simp add: process_pgn_file_def scan_games_uncapped)
qed

lemma set_map_filter: "set (List.map_filter f xs) = {y. \<exists>x \<in> set xs. f x = Some y}"
  by (induction xs) (auto split: option.splits)

lemma row_from_game:
  "row \<in> set (process_pgn_file R p stream t mg) \<Longrightarrow>
   \<exists>g \<in> set stream. process_game R p t g = Some row"
  by (auto simp: process_pgn_file_eq set_map_filter split: if_splits dest: in_set_takeD)

lemma map_filter_append:
  "List.map_filter f (xs @ ys) = List.map_filter f xs @ List.map_filter f ys"
  by (simp add: List.map_filter_def)

lemma skipped_game:
  "process_game R p t g = None \<Longrightarrow>
   process_pgn_file R p (pre @ g # post) t mg = process_pgn_file R p (pre @ post) t mg"
  by (simp add: process_pgn_file_eq map_filter_append)

lemma row_dom:
  assumes "process_game R p t g = Some row"
  shows "dom row = row_keys"
proof -
  from assms obtain target w bl b where
    "row = (extract_board_features R b)
             (''white_elo'' \<mapsto> PyInt w, ''black_elo'' \<mapsto> PyInt bl,
              ''elo_diff'' \<mapsto> PyInt (w - bl), ''result'' \<mapsto> target)"
    unfolding process_game_Some by blast
  then have "dom row =
      insert ''result'' (insert ''elo_diff'' (insert ''black_elo'' (insert ''white_elo''
        feature_keys)))"
    by (simp add: dom_extract)
  then show ?thesis
    unfolding row_keys_def by blast
qed

lemma extract_king_safety:
  "extract_board_features R b ''white_king_attackers'' =
     get_king_safety_features R b ''white_king_attackers''"
  "extract_board_features R b ''white_pawn_shield'' =
     get_king_safety_features R b ''white_pawn_shield''"
  "extract_board_features R b ''black_king_attackers'' =
     get_king_safety_features R b ''black_king_attackers''"
  "extract_board_features R b ''black_pawn_shield'' =
     get_king_safety_features R b ''black_pawn_shield''"
  by (simp_all add: extract_board_features_def map_add_def get_mobility_features_def
      get_game_state_features_def king_safety_white_shield king_safety_black_shield
      king_safety_white_attackers king_safety_black_attackers)

lemma king_safety_computed:
  "king b White = Some sq \<Longrightarrow> sq \<noteq> 0 \<Longrightarrow>
   get_king_safety_features R b ''white_king_attackers'' =
     Some (PyInt (int (fcard (attackers R b Black sq))))
   \<and> get_king_safety_features R b ''white_pawn_shield'' =
     Some (PyInt (pawn_shield b White (square_file sq) (shield_ranks White (square_rank sq))))"
  "king b Black = Some sq \<Longrightarrow> sq \<noteq> 0 \<Longrightarrow>
   get_king_safety_features R b ''black_king_attackers'' =
     Some (PyInt (int (fcard (attackers R b White sq))))
   \<and> get_king_safety_features R b ''black_pawn_shield'' =
     Some (PyInt (pawn_shield b Black (square_file sq) (shield_ranks Black (square_rank sq))))"
  by (simp_all add: king_safety_white_shield king_safety_black_shield
      king_safety_white_attackers king_safety_black_attackers)

lemma king_safety_no_king:
  "king b White = None \<Longrightarrow>
   get_king_safety_features R b ''white_king_attackers'' = Some (PyInt 0)
   \<and> get_king_safety_features R b ''white_pawn_shield'' = Some (PyInt 0)"
  "king b Black = None \<Longrightarrow>
   get_king_safety_features R b ''black_king_attackers'' = Some (PyInt 0)
   \<and> get_king_safety_features R b ''black_pawn_shield'' = Some (PyInt 0)"
  by (simp_all add: king_safety_white_shield king_safety_black_shield
      king_safety_white_attackers king_safety_black_attackers)

lemma square_coords:
  "square_file 4 = 4" "square_rank 4 = 0" "square_file 60 = 4" "square_rank 60 = 7"
  "square_file 0 = 0" "square_rank 0 = 0"
  by (simp_all add: square_file_def square_rank_def)

lemma starting_material:
  "material starting_board White = 39" "material starting_board Black = 39"
  by code_simp+

lemma starting_kings: "king starting_board White = Some 4" "king starting_board Black = Some 60"
  by code_simp+

lemma starting_shields:
  "pawn_shield starting_board White 4 [1..7] = 3"
  "pawn_shield starting_board Black 4 (rev [0..6]) = 3"
  by (simp_all add: pawn_shield_def starting_board_def square_def upto.simps)

lemma queen_down_material:
  "material queen_down_board White = 0" "material queen_down_board Black = 9"
  by code_simp+

lemma kingless_kings:
  "king kingless_board White = None" "king kingless_board Black = None"
  by code_simp+

lemma corner_king: "king corner_board White = Some 0"
  by code_simp

lemma corner_shield: "pawn_shield corner_board White 0 [1..7] = 1"
  by (simp add: pawn_shield_def corner_board_def square_def upto.simps)

lemma result_target_Some:
  "result_target r = Some v \<longleftrightarrow>
     (r = ''1-0'' \<and> v = PyInt 1) \<or> (r = ''0-1'' \<and> v = PyInt 0)
     \<or> (r = ''1/2-1/2'' \<and> v = PyFloat (1 / 2))"
  by (auto simp: result_target_def)

lemma headers_get_Some:
  "headers_get h k d \<noteq> d \<Longrightarrow> h k = Some (headers_get h k d)"
  by (cases "h k") (simp_all add: headers_get_def)

lemma take_min_length:
  "take (nat (min (int (length ms)) k)) ms = take (nat k) ms"
  by (cases "int (length ms) \<le> k") (simp_all add: min_def)

lemma replay_from_start:
  assumes "0 \<le> t"
  shows "replay R t (game_board g) 0 (mainline_moves g) =
    (position_after R g (2 * t), min (int (length (mainline_moves g))) (2 * t))"
  using replay_eq [of 0 t R "game_board g" "mainline_moves g"] assms
  by (simp add: position_after_def mult.commute)

lemma process_game_SomeD:
  assumes "process_game R p t g = Some row"
  shows "\<exists>r w bl wi bi target.
    headers g ''Result'' = Some r \<and> result_target r = Some target \<and>
    headers g ''WhiteElo'' = Some w \<and> w \<noteq> [] \<and> w \<noteq> ''?'' \<and> p w = Some wi \<and>
    headers g ''BlackElo'' = Some bl \<and> bl \<noteq> [] \<and> bl \<noteq> ''?'' \<and> p bl = Some bi \<and>
    \<not> snd (replay R t (game_board g) 0 (mainline_moves g)) < t * 2 \<and>
    row = (extract_board_features R (fst (replay R t (game_board g) 0 (mainline_moves g))))
            (''white_elo'' \<mapsto> PyInt wi, ''black_elo'' \<mapsto> PyInt bi,
             ''elo_diff'' \<mapsto> PyInt (wi - bi), ''result'' \<mapsto> target)"
proof -
  let ?r = "headers_get (headers g) ''Result'' ''*''"
  let ?w = "headers_get (headers g) ''WhiteElo'' []"
  let ?b = "headers_get (headers g) ''BlackElo'' []"
  from assms obtain target wi bi where
    t: "result_target ?r = Some target" and
    w: "?w \<noteq> []" "?w \<noteq> ''?''" "p ?w = Some wi" and
    b: "?b \<noteq> []" "?b \<noteq> ''?''" "p ?b = Some bi" and
    n: "\<not> snd (replay R t (game_board g) 0 (mainline_moves g)) < t * 2" and
    row: "row = (extract_board_features R (fst (replay R t (game_board g) 0 (mainline_moves g))))
            (''white_elo'' \<mapsto> PyInt wi, ''black_elo'' \<mapsto> PyInt bi,
             ''elo_diff'' \<mapsto> PyInt (wi - bi), ''result'' \<mapsto> target)"
    unfolding process_game_Some by blast
  from t have "?r \<noteq> ''*''" by (auto simp: result_target_def)
  then have r: "headers g ''Result'' = Some ?r" by (rule headers_get_Some)
  have hw: "headers g ''WhiteElo'' = Some ?w" using w(1) by (rule headers_get_Some)
  have hb: "headers g ''BlackElo'' = Some ?b" using b(1) by (rule headers_get_Some)
  show ?thesis
    using r t hw w hb b n row by blast
qed

lemma scan_games_prefix:
  "k + int (length (qualifying_rows R p t pre)) < n \<Longrightarrow>
   scan_games R p t (Some n) (pre @ rest) data k =
     scan_games R p t (Some n) rest (data @ qualifying_rows R p t pre)
       (k + int (length (qualifying_rows R p t pre)))"
proof (induction pre arbitrary: data k)
  case Nil
  show ?case by (simp add: qualifying_rows_def)
next
  case (Cons g gs)
  show ?case
  proof (cases "process_game R p t g")
    case None
    with Cons show ?thesis by (simp add: qualifying_rows_def)
  next
    case (Some row)
    with Cons.prems have less: "k + 1 + int (length (qualifying_rows R p t gs)) < n"
      by (simp add: qualifying_rows_def)
    then have "\<not> k + 1 \<ge> n" by simp
    with Some Cons.IH [OF less, of "data @ [row]"] show ?thesis
      by (simp add: qualifying_rows_def add.assoc)
  qed
qed

lemma scan_games_stop:
  assumes "0 < n" "process_game R p t g = Some row"
    "int (length (qualifying_rows R p t pre)) = n - 1"
  shows "scan_games R p t (Some n) (pre @ g # post) [] 0 =
    (qualifying_rows R p t pre @ [row], post)"
proof -
  have "scan_games R p t (Some n) (pre @ g # post) [] 0 =
      scan_games R p t (Some n) (g # post) ([] @ qualifying_rows R p t pre)
        (0 + int (length (qualifying_rows R p t pre)))"
    by (rule scan_games_prefix) (simp add: assms(3))
  then show ?thesis
    using assms by simp
qed

lemma nonempty_Bex: "xs \<noteq> [] \<Longrightarrow> \<forall>x \<in> set xs. P x \<Longrightarrow> \<exists>x \<in> set xs. P x"
  by (cases xs) auto

lemma sample_games:
  "process_game stub_rules digits_int 1 (sample_game ''1-0'' ''1500'' ''1400'') \<noteq> None"
  "process_game stub_rules digits_int 1 (sample_game ''1/2-1/2'' ''1600'' ''1650'') \<noteq> None"
  "process_game stub_rules digits_int 1 (sample_game ''0-1'' ''?'' ''1400'') = None"
  "process_game stub_rules digits_int 1 (sample_game ''*'' ''1500'' ''1400'') = None"
  "process_game stub_rules digits_int 1 (sample_game ''1-0'' ''15x0'' ''1400'') = None"
  "process_game stub_rules digits_int 1 short_game = None"
  by (simp_all add: process_game_def sample_game_def short_game_def headers_get_def
      result_target_def digits_int_def stub_rules_def)

lemma sample_rows:
  "length (process_pgn_file stub_rules digits_int sample_stream 1 None) = 2"
  using sample_games(1-3)
  by (auto simp: process_pgn_file_eq sample_stream_def)

lemma sample_rows_nonempty:
  "process_pgn_file stub_rules digits_int sample_stream 1 None \<noteq> []"
  using sample_rows by auto

section \<open>The claims\<close>

text \<open>
  Claim C1: the king-safety features of a colour are computed from that colour's king
  square whenever it has a king on the board, and default to 0 exactly when it has none.
  The extractor tests the king's square by its truth value, and the square a1 is the
  integer 0: with the white king on a1 behind its pawn on a2 the per-file scan from the
  king's square counts 1, yet the extractor reports the defaults, a pawn shield of 0 and
  0 attackers whatever the rules engine answers. For a king on any other square, and for
  no king at all, the claim holds (\<open>king_safety_computed\<close>, \<open>king_safety_no_king\<close>).
\<close>

theorem king_on_a1_gets_defaults:
  "king corner_board White = Some 0
   \<and> pawn_shield corner_board White (square_file 0) (shield_ranks White (square_rank 0)) = 1
   \<and> extract_board_features R corner_board ''white_pawn_shield'' = Some (PyInt 0)
   \<and> extract_board_features R corner_board ''white_king_attackers'' = Some (PyInt 0)"
  by (simp add: corner_king corner_shield square_coords extract_king_safety
      king_safety_white_shield king_safety_white_attackers)

text \<open>
  Claim C2: for a target of \<open>t \<ge> 0\<close> full moves, the replay of a game ends in the
  position after \<open>min (number of half-moves) (2 t)\<close> half-moves, having counted as many; a
  game with fewer than \<open>2 t\<close> half-moves is skipped, so that the dataset is what it would
  be without that game; and every row of the dataset comes from a game of the stream with
  at least \<open>2 t\<close> half-moves and holds the features of its position after exactly
  \<open>2 t\<close> half-moves, under the four metadata fields.
\<close>

theorem replay_stops_at_target:
  assumes "0 \<le> t"
  shows "replay R t (game_board g) 0 (mainline_moves g) =
      (position_after R g (min (int (length (mainline_moves g))) (2 * t)),
       min (int (length (mainline_moves g))) (2 * t))
    \<and> (int (length (mainline_moves g)) < 2 * t \<longrightarrow>
         process_game R p t g = None
         \<and> process_pgn_file R p (pre @ g # post) t mg = process_pgn_file R p (pre @ post) t mg)
    \<and> (\<forall>row \<in> set (process_pgn_file R p stream t mg).
         \<exists>g' \<in> set stream.
           2 * t \<le> int (length (mainline_moves g'))
           \<and> process_game R p t g' = Some row
           \<and> (\<exists>wi bi target.
                 row = (extract_board_features R (position_after R g' (2 * t)))
                         (''white_elo'' \<mapsto> PyInt wi, ''black_elo'' \<mapsto> PyInt bi,
                          ''elo_diff'' \<mapsto> PyInt (wi - bi), ''result'' \<mapsto> target)))"
proof -
  note start = replay_from_start [OF assms, of R]
  have stop: "replay R t (game_board g) 0 (mainline_moves g) =
      (position_after R g (min (int (length (mainline_moves g))) (2 * t)),
       min (int (length (mainline_moves g))) (2 * t))"
    unfolding start [of g] position_after_def take_min_length by (rule refl)
  have short: "process_game R p t g = None"
    if "int (length (mainline_moves g)) < 2 * t"
  proof (cases "process_game R p t g")
    case None
    then show ?thesis .
  next
    case (Some row)
    from process_game_SomeD [OF Some] that show ?thesis
      by (simp add: start [of g] mult.commute)
  qed
  have rows: "\<exists>g' \<in> set stream.
           2 * t \<le> int (length (mainline_moves g'))
           \<and> process_game R p t g' = Some row
           \<and> (\<exists>wi bi target.
                 row = (extract_board_features R (position_after R g' (2 * t)))
                         (''white_elo'' \<mapsto> PyInt wi, ''black_elo'' \<mapsto> PyInt bi,
                          ''elo_diff'' \<mapsto> PyInt (wi - bi), ''result'' \<mapsto> target))"
    if "row \<in> set (process_pgn_file R p stream t mg)" for row
  proof -
    from row_from_game [OF that] obtain g' where
      g': "g' \<in> set stream" "process_game R p t g' = Some row" by blast
    from process_game_SomeD [OF g'(2)] obtain wi bi target where
      n: "\<not> snd (replay R t (game_board g') 0 (mainline_moves g')) < t * 2" and
      row: "row = (extract_board_features R
                     (fst (replay R t (game_board g') 0 (mainline_moves g'))))
            (''white_elo'' \<mapsto> PyInt wi, ''black_elo'' \<mapsto> PyInt bi,
             ''elo_diff'' \<mapsto> PyInt (wi - bi), ''result'' \<mapsto> target)"
      by blast
    from n have "2 * t \<le> int (length (mainline_moves g'))"
      by (simp add: start [of g'])
    moreover from row have "row = (extract_board_features R (position_after R g' (2 * t)))
            (''white_elo'' \<mapsto> PyInt wi, ''black_elo'' \<mapsto> PyInt bi,
             ''elo_diff'' \<mapsto> PyInt (wi - bi), ''result'' \<mapsto> target)"
      by (simp add: start [of g'])
    ultimately show ?thesis
      using g' by blast
  qed
  show ?thesis
    using stop short skipped_game [of R p t g pre post mg] rows by blast
qed

text \<open>The same at \<open>t = 1\<close>, on the one-move game and on the sample stream.\<close>

theorem replay_stops_at_target_witness:
  "(0::int) \<le> 1
   \<and> int (length (mainline_moves short_game)) < 2 * 1
   \<and> process_game stub_rules digits_int 1 short_game = None
   \<and> process_pgn_file stub_rules digits_int sample_stream 1 None \<noteq> []
   \<and> (\<exists>row \<in> set (process_pgn_file stub_rules digits_int sample_stream 1 None).
         \<exists>g' \<in> set sample_stream.
           2 * 1 \<le> int (length (mainline_moves g'))
           \<and> process_game stub_rules digits_int 1 g' = Some row
           \<and> (\<exists>wi bi target.
                 row = (extract_board_features stub_rules (position_after stub_rules g' (2 * 1)))
                         (''white_elo'' \<mapsto> PyInt wi, ''black_elo'' \<mapsto> PyInt bi,
                          ''elo_diff'' \<mapsto> PyInt (wi - bi), ''result'' \<mapsto> target)))"
proof -
  have h: "(0::int) \<le> 1" by simp
  have s: "int (length (mainline_moves short_game)) < 2 * 1"
    by (simp add: short_game_def sample_game_def)
  note n = sample_rows_nonempty
  note th = replay_stops_at_target [OF h, of stub_rules short_game digits_int "[]" "[]" None
      sample_stream]
  note skipped = th [THEN conjunct2, THEN conjunct1, THEN mp, OF s, THEN conjunct1]
  note rows = nonempty_Bex [OF n th [THEN conjunct2, THEN conjunct2]]
  show ?thesis
    by (intro conjI h s n skipped rows)
qed

text \<open>
  Claim C3: a game whose result header is absent or is anything but \<open>1-0\<close>, \<open>0-1\<close> or
  \<open>1/2-1/2\<close> (so also \<open>*\<close>) is skipped: the dataset is what it would be without that
  game. Every row of the dataset comes from a game of the stream, with \<open>result\<close> 1 for
  \<open>1-0\<close>, 0 for \<open>0-1\<close> and 0.5 for \<open>1/2-1/2\<close>.
\<close>

theorem result_header_filter:
  "(headers g ''Result'' \<notin> {Some ''1-0'', Some ''0-1'', Some ''1/2-1/2''} \<longrightarrow>
      process_game R p t g = None
      \<and> process_pgn_file R p (pre @ g # post) t mg = process_pgn_file R p (pre @ post) t mg)
   \<and> (\<forall>row \<in> set (process_pgn_file R p stream t mg).
        \<exists>g' \<in> set stream.
          process_game R p t g' = Some row
          \<and> (headers g' ''Result'' = Some ''1-0'' \<and> row ''result'' = Some (PyInt 1)
             \<or> headers g' ''Result'' = Some ''0-1'' \<and> row ''result'' = Some (PyInt 0)
             \<or> headers g' ''Result'' = Some ''1/2-1/2''
                \<and> row ''result'' = Some (PyFloat (1 / 2))))"
proof -
  have label: "headers g' ''Result'' = Some ''1-0'' \<and> row ''result'' = Some (PyInt 1)
      \<or> headers g' ''Result'' = Some ''0-1'' \<and> row ''result'' = Some (PyInt 0)
      \<or> headers g' ''Result'' = Some ''1/2-1/2'' \<and> row ''result'' = Some (PyFloat (1 / 2))"
    if "process_game R p t g' = Some row" for g' row
  proof -
    from process_game_SomeD [OF that] obtain r target where
      r: "headers g' ''Result'' = Some r" "result_target r = Some target" and
      row: "row ''result'' = Some target"
      by auto
    from r(2) row r(1) show ?thesis
      unfolding result_target_Some by blast
  qed
  have skip: "process_game R p t g = None"
    if "headers g ''Result'' \<notin> {Some ''1-0'', Some ''0-1'', Some ''1/2-1/2''}"
  proof (cases "process_game R p t g")
    case None
    then show ?thesis .
  next
    case (Some row)
    from label [OF Some] that show ?thesis by blast
  qed
  have rows: "\<exists>g' \<in> set stream.
          process_game R p t g' = Some row
          \<and> (headers g' ''Result'' = Some ''1-0'' \<and> row ''result'' = Some (PyInt 1)
             \<or> headers g' ''Result'' = Some ''0-1'' \<and> row ''result'' = Some (PyInt 0)
             \<or> headers g' ''Result'' = Some ''1/2-1/2''
                \<and> row ''result'' = Some (PyFloat (1 / 2)))"
    if "row \<in> set (process_pgn_file R p stream t mg)" for row
    using row_from_game [OF that] label by blast
  show ?thesis
    using skip skipped_game [of R p t g pre post mg] rows by blast
qed

text \<open>The same on a sample game with result \<open>*\<close> and on the sample stream.\<close>

theorem result_header_filter_witness:
  "headers (sample_game ''*'' ''1500'' ''1400'') ''Result''
     \<notin> {Some ''1-0'', Some ''0-1'', Some ''1/2-1/2''}
   \<and> process_game stub_rules digits_int 1 (sample_game ''*'' ''1500'' ''1400'') = None
   \<and> process_pgn_file stub_rules digits_int
        ([sample_game ''1-0'' ''1500'' ''1400''] @ sample_game ''*'' ''1500'' ''1400'' # []) 1 None
      = process_pgn_file stub_rules digits_int ([sample_game ''1-0'' ''1500'' ''1400''] @ []) 1 None
   \<and> process_pgn_file stub_rules digits_int sample_stream 1 None \<noteq> []
   \<and> (\<exists>row \<in> set (process_pgn_file stub_rules digits_int sample_stream 1 None).
        \<exists>g' \<in> set sample_stream.
          process_game stub_rules digits_int 1 g' = Some row
          \<and> (headers g' ''Result'' = Some ''1-0'' \<and> row ''result'' = Some (PyInt 1)
             \<or> headers g' ''Result'' = Some ''0-1'' \<and> row ''result'' = Some (PyInt 0)
             \<or> headers g' ''Result'' = Some ''1/2-1/2''
                \<and> row ''result'' = Some (PyFloat (1 / 2))))"
proof -
  have h: "headers (sample_game ''*'' ''1500'' ''1400'') ''Result''
     \<notin> {Some ''1-0'', Some ''0-1'', Some ''1/2-1/2''}"
    by (simp add: sample_game_def)
  note n = sample_rows_nonempty
  note th = result_header_filter [of "sample_game ''*'' ''1500'' ''1400''" stub_rules
      digits_int 1 "[sample_game ''1-0'' ''1500'' ''1400'']" "[]" None sample_stream]
  note skipped = th [THEN conjunct1, THEN mp, OF h]
  note rows = nonempty_Bex [OF n th [THEN conjunct2]]
  show ?thesis
    by (intro conjI h n skipped [THEN conjunct1] skipped [THEN conjunct2] rows)
qed

text \<open>
  Claim C4: for every board, with or without kings, the extractor's mapping has exactly
  the 22 keys of \<open>feature_keys\<close>, and every row of the dataset has exactly the keys of
  \<open>row_keys\<close>. A colour without a king has its attacker count and its pawn shield present
  with the value 0.
\<close>

theorem feature_schema_fixed:
  "dom (extract_board_features R b) = feature_keys
   \<and> (\<forall>row \<in> set (process_pgn_file R p stream t mg). dom row = row_keys)
   \<and> (king b White = None \<longrightarrow>
         extract_board_features R b ''white_king_attackers'' = Some (PyInt 0)
         \<and> extract_board_features R b ''white_pawn_shield'' = Some (PyInt 0))
   \<and> (king b Black = None \<longrightarrow>
         extract_board_features R b ''black_king_attackers'' = Some (PyInt 0)
         \<and> extract_board_features R b ''black_pawn_shield'' = Some (PyInt 0))"
proof -
  have rows: "\<forall>row \<in> set (process_pgn_file R p stream t mg). dom row = row_keys"
  proof
    fix row
    assume "row \<in> set (process_pgn_file R p stream t mg)"
    from row_from_game [OF this] row_dom show "dom row = row_keys" by blast
  qed
  have white: "king b White = None \<longrightarrow>
         extract_board_features R b ''white_king_attackers'' = Some (PyInt 0)
         \<and> extract_board_features R b ''white_pawn_shield'' = Some (PyInt 0)"
    by (simp add: extract_king_safety king_safety_no_king)
  have black: "king b Black = None \<longrightarrow>
         extract_board_features R b ''black_king_attackers'' = Some (PyInt 0)
         \<and> extract_board_features R b ''black_pawn_shield'' = Some (PyInt 0)"
    by (simp add: extract_king_safety king_safety_no_king)
  show ?thesis
    by (intro conjI dom_extract rows white black)
qed

text \<open>
  The same on the sample stream, which does yield rows, and on a board without kings.
\<close>

theorem feature_schema_fixed_witness:
  "process_pgn_file stub_rules digits_int sample_stream 1 None \<noteq> []
   \<and> (\<exists>row \<in> set (process_pgn_file stub_rules digits_int sample_stream 1 None).
         dom row = row_keys)
   \<and> dom (extract_board_features stub_rules kingless_board) = feature_keys
   \<and> king kingless_board White = None
   \<and> extract_board_features stub_rules kingless_board ''white_king_attackers'' = Some (PyInt 0)
   \<and> extract_board_features stub_rules kingless_board ''white_pawn_shield'' = Some (PyInt 0)
   \<and> king kingless_board Black = None
   \<and> extract_board_features stub_rules kingless_board ''black_king_attackers'' = Some (PyInt 0)
   \<and> extract_board_features stub_rules kingless_board ''black_pawn_shield'' = Some (PyInt 0)"
proof -
  note n = sample_rows_nonempty
  note th = feature_schema_fixed [of stub_rules kingless_board digits_int sample_stream 1 None]
  note rows = nonempty_Bex [OF n th [THEN conjunct2, THEN conjunct1]]
  note white = th [THEN conjunct2, THEN conjunct2, THEN conjunct1, THEN mp,
      OF kingless_kings(1)]
  note black = th [THEN conjunct2, THEN conjunct2, THEN conjunct2, THEN mp,
      OF kingless_kings(2)]
  show ?thesis
    by (intro conjI n rows th [THEN conjunct1] kingless_kings
        white [THEN conjunct1] white [THEN conjunct2]
        black [THEN conjunct1] black [THEN conjunct2])
qed

text \<open>
  Claim C5: a game whose white or black rating header is missing, empty, \<open>?\<close> or not
  accepted by \<open>int\<close> is skipped: the scan goes on and the dataset is what it would be
  without that game. Every row of the dataset comes from a game with two ratings that
  parse, carries them and their difference, and has the full set of keys.
\<close>

theorem rating_filter:
  "(headers g ''WhiteElo'' \<in> {None, Some [], Some ''?''}
    \<or> headers g ''BlackElo'' \<in> {None, Some [], Some ''?''}
    \<or> (\<exists>s. headers g ''WhiteElo'' = Some s \<and> p s = None)
    \<or> (\<exists>s. headers g ''BlackElo'' = Some s \<and> p s = None) \<longrightarrow>
      process_game R p t g = None
      \<and> process_pgn_file R p (pre @ g # post) t mg = process_pgn_file R p (pre @ post) t mg)
   \<and> (\<forall>row \<in> set (process_pgn_file R p stream t mg).
        \<exists>g' \<in> set stream. \<exists>w bl wi bi.
          headers g' ''WhiteElo'' = Some w \<and> w \<noteq> [] \<and> w \<noteq> ''?'' \<and> p w = Some wi
          \<and> headers g' ''BlackElo'' = Some bl \<and> bl \<noteq> [] \<and> bl \<noteq> ''?'' \<and> p bl = Some bi
          \<and> row ''white_elo'' = Some (PyInt wi) \<and> row ''black_elo'' = Some (PyInt bi)
          \<and> row ''elo_diff'' = Some (PyInt (wi - bi))
          \<and> dom row = row_keys)"
proof -
  have rated: "\<exists>w bl wi bi.
          headers g' ''WhiteElo'' = Some w \<and> w \<noteq> [] \<and> w \<noteq> ''?'' \<and> p w = Some wi
          \<and> headers g' ''BlackElo'' = Some bl \<and> bl \<noteq> [] \<and> bl \<noteq> ''?'' \<and> p bl = Some bi
          \<and> row ''white_elo'' = Some (PyInt wi) \<and> row ''black_elo'' = Some (PyInt bi)
          \<and> row ''elo_diff'' = Some (PyInt (wi - bi))
          \<and> dom row = row_keys"
    if "process_game R p t g' = Some row" for g' row
  proof -
    from process_game_SomeD [OF that] obtain w bl wi bi where
      w: "headers g' ''WhiteElo'' = Some w" "w \<noteq> []" "w \<noteq> ''?''" "p w = Some wi" and
      b: "headers g' ''BlackElo'' = Some bl" "bl \<noteq> []" "bl \<noteq> ''?''" "p bl = Some bi" and
      row: "row ''white_elo'' = Some (PyInt wi)" "row ''black_elo'' = Some (PyInt bi)"
        "row ''elo_diff'' = Some (PyInt (wi - bi))"
      by auto
    show ?thesis
      using w b row row_dom [OF that] by blast
  qed
  have skip: "process_game R p t g = None"
    if "headers g ''WhiteElo'' \<in> {None, Some [], Some ''?''}
    \<or> headers g ''BlackElo'' \<in> {None, Some [], Some ''?''}
    \<or> (\<exists>s. headers g ''WhiteElo'' = Some s \<and> p s = None)
    \<or> (\<exists>s. headers g ''BlackElo'' = Some s \<and> p s = None)"
  proof (cases "process_game R p t g")
    case None
    then show ?thesis .
  next
    case (Some row)
    from rated [OF Some] that show ?thesis by auto
  qed
  have rows: "\<exists>g' \<in> set stream. \<exists>w bl wi bi.
          headers g' ''WhiteElo'' = Some w \<and> w \<noteq> [] \<and> w \<noteq> ''?'' \<and> p w = Some wi
          \<and> headers g' ''BlackElo'' = Some bl \<and> bl \<noteq> [] \<and> bl \<noteq> ''?'' \<and> p bl = Some bi
          \<and> row ''white_elo'' = Some (PyInt wi) \<and> row ''black_elo'' = Some (PyInt bi)
          \<and> row ''elo_diff'' = Some (PyInt (wi - bi))
          \<and> dom row = row_keys"
    if "row \<in> set (process_pgn_file R p stream t mg)" for row
    using row_from_game [OF that] rated by blast
  show ?thesis
    using skip skipped_game [of R p t g pre post mg] rows by blast
qed

text \<open>The same on sample games with the rating \<open>?\<close> and with a rating that is no number.\<close>

theorem rating_filter_witness:
  "headers (sample_game ''0-1'' ''?'' ''1400'') ''WhiteElo'' \<in> {None, Some [], Some ''?''}
   \<and> process_game stub_rules digits_int 1 (sample_game ''0-1'' ''?'' ''1400'') = None
   \<and> (\<exists>s. headers (sample_game ''1-0'' ''15x0'' ''1400'') ''WhiteElo'' = Some s
           \<and> digits_int s = None)
   \<and> process_game stub_rules digits_int 1 (sample_game ''1-0'' ''15x0'' ''1400'') = None
   \<and> process_pgn_file stub_rules digits_int sample_stream 1 None \<noteq> []
   \<and> (\<exists>row \<in> set (process_pgn_file stub_rules digits_int sample_stream 1 None).
        \<exists>g' \<in> set sample_stream. \<exists>w bl wi bi.
          headers g' ''WhiteElo'' = Some w \<and> w \<noteq> [] \<and> w \<noteq> ''?'' \<and> digits_int w = Some wi
          \<and> headers g' ''BlackElo'' = Some bl \<and> bl \<noteq> [] \<and> bl \<noteq> ''?''
          \<and> digits_int bl = Some bi
          \<and> row ''white_elo'' = Some (PyInt wi) \<and> row ''black_elo'' = Some (PyInt bi)
          \<and> row ''elo_diff'' = Some (PyInt (wi - bi))
          \<and> dom row = row_keys)"
proof -
  have h1: "headers (sample_game ''0-1'' ''?'' ''1400'') ''WhiteElo''
      \<in> {None, Some [], Some ''?''}"
    by (simp add: sample_game_def)
  have h2: "\<exists>s. headers (sample_game ''1-0'' ''15x0'' ''1400'') ''WhiteElo'' = Some s
      \<and> digits_int s = None"
    by (simp add: sample_game_def digits_int_def)
  note n = sample_rows_nonempty
  note th = rating_filter [of "sample_game ''0-1'' ''?'' ''1400''" digits_int
      stub_rules 1 "[]" "[]" None sample_stream]
  note placeholder = th [THEN conjunct1, THEN mp, OF disjI1, OF h1]
  note unparsed = rating_filter [of "sample_game ''1-0'' ''15x0'' ''1400''" digits_int
      stub_rules 1 "[]" "[]" None sample_stream, THEN conjunct1, THEN mp,
      OF disjI2, OF disjI2, OF disjI1, OF h2]
  note rows = nonempty_Bex [OF n th [THEN conjunct2]]
  show ?thesis
    by (intro conjI h1 h2 n rows placeholder [THEN conjunct1] unparsed [THEN conjunct1])
qed

text \<open>
  Claim C6: \<open>material_diff\<close> is \<open>white_material - black_material\<close> as an integer, negative
  when Black has more, and the material of a colour is the sum of the values of its
  pieces: 1 a pawn, 3 a knight, 3 a bishop, 5 a rook, 9 a queen, 0 a king. With a lone
  black queen on the board the difference is -9.
\<close>

theorem material_diff_exact:
  "extract_board_features R b ''material_diff'' =
     Some (PyInt (material b White - material b Black))
   \<and> extract_board_features R b ''white_material'' = Some (PyInt (material b White))
   \<and> extract_board_features R b ''black_material'' = Some (PyInt (material b Black))
   \<and> material b c =
       1 * int (length (pieces b Pawn c)) + 3 * int (length (pieces b Knight c))
       + 3 * int (length (pieces b Bishop c)) + 5 * int (length (pieces b Rook c))
       + 9 * int (length (pieces b Queen c)) + 0 * int (length (pieces b King c))
   \<and> extract_board_features R queen_down_board ''material_diff'' = Some (PyInt (- 9))"
  using material_by_counts [of b c] by (simp add: extract_material queen_down_material)

text \<open>
  Claim C7: both pawn-shield features are integers from 0 to 3. Where the king's square
  is taken, the feature is the count over the ranks ahead of the king, from the rank next
  to it to the far edge. The count is the sum, over the at most three files of
  \<open>shield_files\<close>, of what the scan of one file gives, and that is 1 if some rank of the
  walk has a pawn of the colour on that file (the walk stops at the first) and 0 otherwise.
\<close>

theorem pawn_shield_range:
  "(\<exists>n. extract_board_features R b ''white_pawn_shield'' = Some (PyInt n) \<and> 0 \<le> n \<and> n \<le> 3)
   \<and> (\<exists>n. extract_board_features R b ''black_pawn_shield'' = Some (PyInt n) \<and> 0 \<le> n \<and> n \<le> 3)
   \<and> extract_board_features R b ''white_pawn_shield'' =
       Some (PyInt (if truthy (king b White)
                    then pawn_shield b White (square_file (the (king b White)))
                           [square_rank (the (king b White)) + 1..7]
                    else 0))
   \<and> extract_board_features R b ''black_pawn_shield'' =
       Some (PyInt (if truthy (king b Black)
                    then pawn_shield b Black (square_file (the (king b Black)))
                           (rev [0..square_rank (the (king b Black)) - 1])
                    else 0))
   \<and> pawn_shield b c king_file ranks =
       sum_list (map (\<lambda>check_file. scan_file b c check_file ranks) (shield_files king_file))
   \<and> length (shield_files king_file) \<le> 3
   \<and> scan_file b c check_file ranks =
       of_bool (list_ex (\<lambda>rank. piece_at b (square check_file rank) = Some (Piece Pawn c)) ranks)
   \<and> 0 \<le> scan_file b c check_file ranks \<and> scan_file b c check_file ranks \<le> 1"
proof -
  have white: "\<exists>n. extract_board_features R b ''white_pawn_shield'' = Some (PyInt n)
      \<and> 0 \<le> n \<and> n \<le> 3"
    using pawn_shield_bounds [of b White]
    by (simp add: extract_king_safety king_safety_white_shield)
  have black: "\<exists>n. extract_board_features R b ''black_pawn_shield'' = Some (PyInt n)
      \<and> 0 \<le> n \<and> n \<le> 3"
    using pawn_shield_bounds [of b Black]
    by (simp add: extract_king_safety king_safety_black_shield)
  have white_scan: "extract_board_features R b ''white_pawn_shield'' =
       Some (PyInt (if truthy (king b White)
                    then pawn_shield b White (square_file (the (king b White)))
                           [square_rank (the (king b White)) + 1..7]
                    else 0))"
    by (simp add: extract_king_safety king_safety_white_shield)
  have black_scan: "extract_board_features R b ''black_pawn_shield'' =
       Some (PyInt (if truthy (king b Black)
                    then pawn_shield b Black (square_file (the (king b Black)))
                           (rev [0..square_rank (the (king b Black)) - 1])
                    else 0))"
    by (simp add: extract_king_safety king_safety_black_shield)
  have files: "length (shield_files king_file) \<le> 3"
    unfolding shield_files_def by (rule order_trans [OF length_filter_le]) simp
  show ?thesis
    by (intro conjI white black white_scan black_scan files
        pawn_shield_sum scan_file_first scan_file_bounds [THEN conjunct1]
        scan_file_bounds [THEN conjunct2])
qed

text \<open>
  Claim C8: on the starting position both materials are 39, their difference is 0 and
  both pawn shields are 3.
\<close>

theorem starting_position_features:
  "extract_board_features R starting_board ''white_material'' = Some (PyInt 39)
   \<and> extract_board_features R starting_board ''black_material'' = Some (PyInt 39)
   \<and> extract_board_features R starting_board ''material_diff'' = Some (PyInt 0)
   \<and> extract_board_features R starting_board ''white_pawn_shield'' = Some (PyInt 3)
   \<and> extract_board_features R starting_board ''black_pawn_shield'' = Some (PyInt 3)"
  by (simp add: extract_material starting_material extract_king_safety
      king_safety_white_shield king_safety_black_shield starting_kings square_coords
      starting_shields)

text \<open>
  Claim C9: with a cap \<open>n > 0\<close> the dataset is the first \<open>n\<close> rows of the qualifying
  games, in the order of the stream, so at most \<open>n\<close> rows; the scan stops at the game that
  yields the \<open>n\<close>-th row and leaves what follows it unread; and with a cap of 1 a stream
  with a qualifying game gives exactly one row.
\<close>

theorem max_games_cap:
  assumes "0 < n"
  shows "process_pgn_file R p stream t (Some n) = take (nat n) (qualifying_rows R p t stream)
   \<and> int (length (process_pgn_file R p stream t (Some n))) \<le> n
   \<and> (process_game R p t g = Some row
       \<and> int (length (qualifying_rows R p t pre)) = n - 1 \<longrightarrow>
         scan_games R p t (Some n) (pre @ g # post) [] 0 =
           (qualifying_rows R p t pre @ [row], post))
   \<and> ((\<exists>g' \<in> set stream. process_game R p t g' \<noteq> None) \<longrightarrow>
         length (process_pgn_file R p stream t (Some 1)) = 1)"
proof -
  have eq: "process_pgn_file R p stream t (Some n) = take (nat n) (qualifying_rows R p t stream)"
    using assms by (simp add: process_pgn_file_eq qualifying_rows_def max_def)
  have len: "int (length (process_pgn_file R p stream t (Some n))) \<le> n"
    unfolding eq using assms by simp
  have one: "length (process_pgn_file R p stream t (Some 1)) = 1"
    if "\<exists>g' \<in> set stream. process_game R p t g' \<noteq> None"
  proof -
    from that have "set (List.map_filter (process_game R p t) stream) \<noteq> {}"
      unfolding set_map_filter by auto
    then have "List.map_filter (process_game R p t) stream \<noteq> []" by simp
    then show ?thesis
      by (cases "List.map_filter (process_game R p t) stream")
         (simp_all add: process_pgn_file_eq)
  qed
  show ?thesis
    using eq len one scan_games_stop [OF assms, of R p t g row pre post] by blast
qed

text \<open>The same with a cap of 1 on the sample stream.\<close>

theorem max_games_cap_witness:
  "(0::int) < 1
   \<and> process_pgn_file stub_rules digits_int sample_stream 1 (Some 1) =
       take (nat 1) (qualifying_rows stub_rules digits_int 1 sample_stream)
   \<and> (\<exists>g' \<in> set sample_stream. process_game stub_rules digits_int 1 g' \<noteq> None)
   \<and> length (process_pgn_file stub_rules digits_int sample_stream 1 (Some 1)) = 1
   \<and> (\<exists>row. process_game stub_rules digits_int 1 (sample_game ''1-0'' ''1500'' ''1400'')
               = Some row
         \<and> int (length (qualifying_rows stub_rules digits_int 1 [])) = 1 - 1
         \<and> scan_games stub_rules digits_int 1 (Some 1)
             ([] @ sample_game ''1-0'' ''1500'' ''1400''
                # [sample_game ''1/2-1/2'' ''1600'' ''1650'']) [] 0 =
           (qualifying_rows stub_rules digits_int 1 [] @ [row],
            [sample_game ''1/2-1/2'' ''1600'' ''1650'']))"
proof -
  have h: "(0::int) < 1" by simp
  have e: "\<exists>g' \<in> set sample_stream. process_game stub_rules digits_int 1 g' \<noteq> None"
    using sample_games(1) by (simp add: sample_stream_def)
  obtain row where
    row: "process_game stub_rules digits_int 1 (sample_game ''1-0'' ''1500'' ''1400'') = Some row"
    using sample_games(1) by blast
  have q: "int (length (qualifying_rows stub_rules digits_int 1 [])) = 1 - 1"
    by (simp add: qualifying_rows_def)
  show ?thesis
    using h e row q
      max_games_cap [OF h, of stub_rules digits_int sample_stream 1
        "sample_game ''1-0'' ''1500'' ''1400''" row "[]"
        "[sample_game ''1/2-1/2'' ''1600'' ''1650'']"]
    by blast
qed

text \<open>
  Claim C10: a cap of 0 is no cap. The dataset is the one of \<open>max_games = None\<close>, the rows
  of all qualifying games, the stream is read to its end, and the sample stream gives its
  two rows, not none.
\<close>

theorem max_games_zero_uncapped:
  "process_pgn_file R p stream t (Some 0) = process_pgn_file R p stream t None
   \<and> process_pgn_file R p stream t (Some 0) = qualifying_rows R p t stream
   \<and> snd (scan_games R p t (Some 0) stream [] 0) = []
   \<and> length (process_pgn_file stub_rules digits_int sample_stream 1 (Some 0)) = 2"
  using sample_rows
  by (simp add: process_pgn_file_eq qualifying_rows_def scan_games_uncapped)

end
